theory Spec2Isabelle
  imports Main "HOL-Library.AList"
begin

section \<open>JavaScript values\<close>

text \<open>
  The module \<^verbatim>\<open>lib/mongoose-validator.js\<close> works on untyped JavaScript values.
  The fragment of values modelled here: \<^verbatim>\<open>undefined\<close>, \<^verbatim>\<open>null\<close>, booleans, integral
  numbers, strings (as character lists), arrays, plain objects (their own enumerable
  properties in key order; the prototype of every plain object is \<^verbatim>\<open>Object.prototype\<close>)
  and functions. Symbols, non-integral numbers, wrapper objects such as
  \<^verbatim>\<open>new String('a')\<close>, sparse arrays and objects with another prototype are outside the
  model.

  Functions are first-class in the source: they are stored in option objects, in the
  registry and in the returned descriptor. A function value is therefore a reference:
  \<^item> \<open>Native n\<close> is a function written outside this module (a caller's predicate, a rule of
    validator.js, a built-in), known by a name \<open>n\<close>; what it does when called is given by
    an environment;
  \<^item> \<open>ExtendWrapper fn\<close> is the closure created at lines 163-169 of the source, which
    captures the parameter \<open>fn\<close> of \<^verbatim>\<open>extend\<close>;
  \<^item> \<open>ValidatorClosure fn args passIfEmpty\<close> is the closure created at lines 64-70 by
    \<^verbatim>\<open>createValidator\<close>, which captures its three parameters.
\<close>

datatype jsval =
    JUndefined
  | JNull
  | JBool bool
  | JNum int
  | JStr string
  | JArr "jsval list"
  | JObj "(string \<times> jsval) list"
  | JFun fn
and fn =
    Native string
  | ExtendWrapper jsval
  | ValidatorClosure jsval "jsval list" bool

datatype js_error =
    Error string
  | TypeError string
  | Thrown jsval

type_synonym object = "(string \<times> jsval) list"

subsection \<open>Language primitives\<close>

text \<open>\<^verbatim>\<open>typeof\<close> (the \<^verbatim>\<open>_typeof\<close> helper of line 3 agrees with it on this fragment).\<close>

fun typeof :: "jsval \<Rightarrow> string" where
  "typeof JUndefined = ''undefined''"
| "typeof JNull = ''object''"
| "typeof (JBool b) = ''boolean''"
| "typeof (JNum n) = ''number''"
| "typeof (JStr s) = ''string''"
| "typeof (JArr xs) = ''object''"
| "typeof (JObj ps) = ''object''"
| "typeof (JFun f) = ''function''"

text \<open>Truthiness, as used by \<^verbatim>\<open>!!x\<close>, \<^verbatim>\<open>a || b\<close> and \<^verbatim>\<open>if (x)\<close>.\<close>

fun truthy :: "jsval \<Rightarrow> bool" where
  "truthy JUndefined = False"
| "truthy JNull = False"
| "truthy (JBool b) = b"
| "truthy (JNum n) = (n \<noteq> 0)"
| "truthy (JStr s) = (s \<noteq> [])"
| "truthy (JArr xs) = True"
| "truthy (JObj ps) = True"
| "truthy (JFun f) = True"

definition js_or :: "jsval \<Rightarrow> jsval \<Rightarrow> jsval" where
  "js_or a b = (if truthy a then a else b)"

text \<open>
  \<^verbatim>\<open>Object.prototype\<close>, which every plain object inherits from: its methods are native
  functions, and its accessor \<^verbatim>\<open>__proto__\<close> reads, on a plain object, as
  \<^verbatim>\<open>Object.prototype\<close> itself, an object with no enumerable property of its own.
\<close>

definition Object_prototype_methods :: "string list" where
  "Object_prototype_methods =
     [''constructor'', ''toString'', ''toLocaleString'', ''valueOf'', ''hasOwnProperty'',
      ''isPrototypeOf'', ''propertyIsEnumerable'', ''__defineGetter__'', ''__defineSetter__'',
      ''__lookupGetter__'', ''__lookupSetter__'']"

definition Object_prototype :: "string \<Rightarrow> jsval" where
  "Object_prototype key =
     (if key \<in> set Object_prototype_methods then JFun (Native (''Object.prototype.'' @ key))
      else if key = ''__proto__'' then JObj []
      else JUndefined)"

text \<open>Reading \<^verbatim>\<open>obj[key]\<close> on a plain object: an own property first, then the prototype.\<close>

definition get_prop :: "object \<Rightarrow> string \<Rightarrow> jsval" where
  "get_prop obj key = (case map_of obj key of Some v \<Rightarrow> v | None \<Rightarrow> Object_prototype key)"

text \<open>
  Writing \<^verbatim>\<open>obj[key] = v\<close> on a plain object. An existing own property is overwritten in
  place and a new one goes last. The key \<^verbatim>\<open>__proto__\<close>, when it is not an own property,
  reaches the setter of \<^verbatim>\<open>Object.prototype\<close>: no own property is created. (The setter
  replaces the prototype when \<open>v\<close> is an object; the objects this module writes to are
  afterwards only read through their own properties, so that change is not represented.)
\<close>

definition set_prop :: "object \<Rightarrow> string \<Rightarrow> jsval \<Rightarrow> object" where
  "set_prop obj key v =
     (if key = ''__proto__'' \<and> map_of obj key = None then obj else AList.update key v obj)"

definition Object_keys :: "object \<Rightarrow> string list" where
  "Object_keys obj = map fst obj"

text \<open>\<^verbatim>\<open>Object.assign(target, source)\<close>: every own property of the source is written to the target.\<close>

definition Object_assign :: "object \<Rightarrow> object \<Rightarrow> object" where
  "Object_assign target source =
     foldl (\<lambda>acc key. set_prop acc key (get_prop source key)) target (Object_keys source)"

subsection \<open>The predicates of the \<^verbatim>\<open>is\<close> package\<close>

text \<open>
  The type-inspection package \<^verbatim>\<open>is\<close> is an external dependency. Its predicates are
  modelled on the value fragment above: \<^verbatim>\<open>is.empty\<close> holds of an array or a string of
  length 0, of an object with no own enumerable property, and of any other value that is
  falsy.
\<close>

fun is_undef :: "jsval \<Rightarrow> bool" where
  "is_undef JUndefined = True"
| "is_undef _ = False"

fun is_nil :: "jsval \<Rightarrow> bool" where
  "is_nil JNull = True"
| "is_nil _ = False"

fun is_function :: "jsval \<Rightarrow> bool" where
  "is_function (JFun f) = True"
| "is_function _ = False"

fun is_string :: "jsval \<Rightarrow> bool" where
  "is_string (JStr s) = True"
| "is_string _ = False"

fun is_array :: "jsval \<Rightarrow> bool" where
  "is_array (JArr xs) = True"
| "is_array _ = False"

fun is_empty :: "jsval \<Rightarrow> bool" where
  "is_empty (JArr xs) = (xs = [])"
| "is_empty (JStr s) = (s = [])"
| "is_empty (JObj ps) = (ps = [])"
| "is_empty v = (\<not> truthy v)"

subsection \<open>Strings of digits, array elements, conversion to text\<close>

definition digit_chars :: string where
  "digit_chars = ''0123456789''"

definition is_digit :: "char \<Rightarrow> bool" where
  "is_digit c = (c \<in> set digit_chars)"

text \<open>The decimal numeral of a natural number, which is the property key of an array index.\<close>

fun decimal :: "nat \<Rightarrow> string" where
  "decimal n = (if n < 10 then [digit_chars ! n] else decimal (n div 10) @ [digit_chars ! (n mod 10)])"

declare decimal.simps [simp del]

text \<open>
  Reading \<^verbatim>\<open>xs[key]\<close> on an array with a string key: the elements are the properties whose
  keys are the decimal numerals of the indices below the length. Any other key made of
  digits (one with a leading zero, or an index past the end) is no property of the array
  or of its prototypes, and the read gives \<^verbatim>\<open>undefined\<close>. The source reads arrays only with
  keys made of digits.
\<close>

definition array_get :: "jsval list \<Rightarrow> string \<Rightarrow> jsval" where
  "array_get xs key =
     (case find (\<lambda>i. decimal i = key) [0..<length xs] of
        Some i \<Rightarrow> xs ! i
      | None \<Rightarrow> JUndefined)"

text \<open>
  The conversion of a value to text (\<^verbatim>\<open>ToString\<close>), which \<^verbatim>\<open>String.prototype.replace\<close>
  applies to what its callback returns. On primitive values it is fixed by the language.
  On arrays, objects and functions it runs their \<^verbatim>\<open>toString\<close> methods; that part is the
  parameter \<open>conv\<close>, and conversions that throw are outside the model.
\<close>

definition ToString :: "(jsval \<Rightarrow> string) \<Rightarrow> jsval \<Rightarrow> string" where
  "ToString conv v =
     (case v of
        JUndefined \<Rightarrow> ''undefined''
      | JNull \<Rightarrow> ''null''
      | JBool b \<Rightarrow> (if b then ''true'' else ''false'')
      | JNum n \<Rightarrow> (if n < 0 then ''-'' @ decimal (nat (- n)) else decimal (nat n))
      | JStr s \<Rightarrow> s
      | _ \<Rightarrow> conv v)"

subsection \<open>Replacing the matches of \<^verbatim>\<open>/{ARGS\[(\d+)\]}/g\<close>\<close>

text \<open>
  \<open>match_token s\<close> matches the regular expression at the start of \<open>s\<close>: the six characters
  \<^verbatim>\<open>{ARGS[\<close>, one or more digits, then \<^verbatim>\<open>]}\<close>. It returns the digits (the submatch) and the
  text after the match. The greedy \<^verbatim>\<open>\d+\<close> takes all the digits there are: giving one back
  would leave a digit where \<^verbatim>\<open>]\<close> has to be.
\<close>

definition match_token :: "string \<Rightarrow> (string \<times> string) option" where
  "match_token s =
     (if take 6 s = ''{ARGS[''
      then (let ds = takeWhile is_digit (drop 6 s);
                rest = dropWhile is_digit (drop 6 s)
            in if ds \<noteq> [] \<and> take 2 rest = '']}'' then Some (ds, drop 2 rest) else None)
      else None)"

lemma match_token_shorter: "match_token s = Some (ds, rest) \<Longrightarrow> length rest < length s"
proof -
  assume m: "match_token s = Some (ds, rest)"
  then have p: "take 6 s = ''{ARGS[''" and r: "rest = drop 2 (dropWhile is_digit (drop 6 s))"
    by (auto simp: match_token_def Let_def split: if_splits)
  from p have "s \<noteq> []" by auto
  moreover have "length (dropWhile is_digit (drop 6 s)) \<le> length (drop 6 s)"
    by (rule length_dropWhile_le)
  then have "length rest \<le> length s - 6"
    unfolding r by simp
  ultimately show ?thesis by (cases s) auto
qed

text \<open>
  \<^verbatim>\<open>message.replace(/{ARGS\[(\d+)\]}/g, callback)\<close>: one pass from left to right. Where the
  expression matches, the text the callback gives for the submatch is emitted and the scan
  goes on after the match; elsewhere the character is kept. Emitted text is not scanned
  again.
\<close>

function replace_tokens :: "(string \<Rightarrow> string) \<Rightarrow> string \<Rightarrow> string" where
  "replace_tokens callback [] = []"
| "replace_tokens callback (c # cs) =
     (case match_token (c # cs) of
        Some (ds, rest) \<Rightarrow> callback ds @ replace_tokens callback rest
      | None \<Rightarrow> c # replace_tokens callback cs)"
  by pat_completeness auto
termination
  by (relation "measure (\<lambda>(callback, s). length s)") (auto dest: match_token_shorter)

declare replace_tokens.simps [simp del]

text \<open>Whether the regular expression matches anywhere in a text.\<close>

fun has_token :: "string \<Rightarrow> bool" where
  "has_token [] = False"
| "has_token (c # cs) = (match_token (c # cs) \<noteq> None \<or> has_token cs)"

section \<open>The module\<close>

subsection \<open>What the module requires and what it owns\<close>

text \<open>
  Line 12 to 14 load three things that are not part of the file:
  \<^item> \<open>validatorjs\<close>, the exports of the package \<^verbatim>\<open>validator\<close>; the module only reads
    \<^verbatim>\<open>validatorjs[name]\<close>, so the package is the function from a name to what that read gives
    (\<^verbatim>\<open>undefined\<close> where it has nothing);
  \<^item> \<open>defaultErrorMessages\<close>, the plain object loaded from \<^verbatim>\<open>default-error-messages.json\<close>;
  \<^item> the built-in conversion of arrays, objects and functions to text, see \<open>ToString\<close>.
\<close>

record host =
  validatorjs :: "string \<Rightarrow> jsval"
  defaultErrorMessages :: object
  toString_of :: "jsval \<Rightarrow> string"

text \<open>Lines 15 and 16: the two module-level objects, both \<^verbatim>\<open>{}\<close> when the module is loaded.\<close>

record registry =
  customValidators :: object
  customErrorMessages :: object

definition initial_registry :: registry where
  "initial_registry = \<lparr>customValidators = [], customErrorMessages = []\<rparr>"

text \<open>The characters of a string value; the source applies it to strings only.\<close>

fun str_of :: "jsval \<Rightarrow> string" where
  "str_of (JStr s) = s"
| "str_of _ = []"

subsection \<open>The helpers, lines 18 to 71\<close>

definition omit :: "object \<Rightarrow> string list \<Rightarrow> object" where
  "omit obj keys =
     foldl (\<lambda>acc val. set_prop acc val (get_prop obj val)) []
       (filter (\<lambda>key. key \<notin> set keys) (Object_keys obj))"

definition getValidatorFn :: "host \<Rightarrow> registry \<Rightarrow> jsval \<Rightarrow> jsval" where
  "getValidatorFn h st validator =
     (if is_function validator then validator
      else if is_string validator \<and> \<not> is_empty validator
      then js_or (js_or (validatorjs h (str_of validator))
                        (get_prop (customValidators st) (str_of validator)))
                 JUndefined
      else JUndefined)"

definition toArray :: "jsval \<Rightarrow> jsval list" where
  "toArray v =
     (let val = (if v \<noteq> JUndefined then v else JArr [])
      in case val of JArr xs \<Rightarrow> xs | _ \<Rightarrow> [val])"

definition findFirstString :: "jsval list \<Rightarrow> jsval" where
  "findFirstString vals = (case filter is_string vals of [] \<Rightarrow> JUndefined | v # rest \<Rightarrow> v)"

definition interpolateMessageWithArgs ::
  "(jsval \<Rightarrow> string) \<Rightarrow> jsval \<Rightarrow> jsval list \<Rightarrow> js_error + jsval" where
  "interpolateMessageWithArgs conv message0 args =
     (let message = (if message0 \<noteq> JUndefined then message0 else JStr [])
      in case message of
           JStr s \<Rightarrow>
             Inr (JStr (replace_tokens
                          (\<lambda>submatch. ToString conv (js_or (array_get args submatch) (JStr []))) s))
         | _ \<Rightarrow> Inl (TypeError ''message.replace is not a function''))"

definition createValidator :: "jsval \<Rightarrow> jsval list \<Rightarrow> bool \<Rightarrow> jsval" where
  "createValidator fn args passIfEmpty = JFun (ValidatorClosure fn args passIfEmpty)"

subsection \<open>\<^verbatim>\<open>validate\<close>, lines 93 to 120\<close>

text \<open>
  The option object is a plain object. The result is the thrown error or the returned
  descriptor; \<^verbatim>\<open>validate\<close> writes to nothing.
\<close>

definition validate :: "host \<Rightarrow> registry \<Rightarrow> object \<Rightarrow> js_error + object" where
  "validate h st options =
     (if is_undef (get_prop options ''validator'')
      then Inl (Error ''validator option undefined'')
      else if \<not> is_function (get_prop options ''validator'')
                \<and> \<not> is_string (get_prop options ''validator'')
      then Inl (Error (''validator must be of type function or string, received ''
                         @ typeof (get_prop options ''validator'')))
      else
        let validatorName =
              (if is_string (get_prop options ''validator'')
               then str_of (get_prop options ''validator'') else []);
            validatorFn = getValidatorFn h st (get_prop options ''validator'')
        in
          if is_undef validatorFn
          then Inl (Error (''validator `'' @ validatorName
                             @ ''` does not exist in validator.js or as a custom validator''))
          else
            let passIfEmpty = truthy (get_prop options ''passIfEmpty'');
                mongooseOpts = omit options [''passIfEmpty'', ''message'', ''validator'', ''arguments''];
                args = toArray (get_prop options ''arguments'');
                messageStr = findFirstString
                  [get_prop options ''message'',
                   get_prop (customErrorMessages st) validatorName,
                   get_prop (defaultErrorMessages h) validatorName,
                   JStr ''Error'']
            in
              case interpolateMessageWithArgs (toString_of h) messageStr args of
                Inl e \<Rightarrow> Inl e
              | Inr message \<Rightarrow>
                  Inr (Object_assign
                         [(''validator'', createValidator validatorFn args passIfEmpty),
                          (''message'', message)]
                         mongooseOpts))"

subsection \<open>\<^verbatim>\<open>validate.extend\<close>, lines 140 to 171\<close>

text \<open>
  A parameter the caller leaves out is \<^verbatim>\<open>undefined\<close>. The result pairs what the call did
  (the thrown error, or a normal return) with the registry as the call leaves it.
\<close>

definition extend :: "registry \<Rightarrow> jsval \<Rightarrow> jsval \<Rightarrow> jsval \<Rightarrow> (js_error + unit) \<times> registry" where
  "extend st name fn msg0 =
     (let msg = (if msg0 \<noteq> JUndefined then msg0 else JStr ''Error'')
      in
        if typeof name \<noteq> ''string''
        then (Inl (Error (''name must be a string, received '' @ typeof name)), st)
        else if typeof fn \<noteq> ''function''
        then (Inl (Error (''validator must be a function, received '' @ typeof fn)), st)
        else if typeof msg \<noteq> ''string''
        then (Inl (Error (''message must be a string, received '' @ typeof msg)), st)
        else if name = JStr []
        then (Inl (Error ''name is required''), st)
        else if truthy (get_prop (customValidators st) (str_of name))
        then (Inl (Error (''validator `'' @ str_of name @ ''` already exists'')), st)
        else
          (Inr (),
           st\<lparr>customValidators :=
                 set_prop (customValidators st) (str_of name) (JFun (ExtendWrapper fn)),
               customErrorMessages :=
                 set_prop (customErrorMessages st) (str_of name) msg\<rparr>))"

subsection \<open>Calling a function value\<close>

text \<open>
  What a native function does is given by an environment: from its name, the \<^verbatim>\<open>this\<close>
  value and the argument list to the value it returns or the error it throws. A call
  yields that outcome together with the list of native functions that were invoked, in
  order, so that "without invoking" can be stated.

  The two closures of this module run as their bodies say: the wrapper of \<^verbatim>\<open>extend\<close>
  (lines 163-169) passes \<^verbatim>\<open>this\<close> and all its arguments to \<open>fn\<close>; the validator of
  \<^verbatim>\<open>createValidator\<close> (lines 64-70) reads its first argument \<open>val\<close> and either returns
  \<^verbatim>\<open>true\<close> or applies \<open>fn\<close> to \<open>[val].concat(args)\<close>. Applying a value that is not a function
  is a \<^verbatim>\<open>TypeError\<close>.
\<close>

type_synonym env = "string \<Rightarrow> jsval \<Rightarrow> jsval list \<Rightarrow> js_error + jsval"

type_synonym outcome = "(string \<times> jsval \<times> jsval list) list \<times> (js_error + jsval)"

definition first_argument :: "jsval list \<Rightarrow> jsval" where
  "first_argument arguments = (case arguments of [] \<Rightarrow> JUndefined | v # rest \<Rightarrow> v)"

fun call :: "env \<Rightarrow> fn \<Rightarrow> jsval \<Rightarrow> jsval list \<Rightarrow> outcome"
and fn_apply :: "env \<Rightarrow> jsval \<Rightarrow> jsval \<Rightarrow> jsval list \<Rightarrow> outcome" where
  "call env (Native n) this arguments = ([(n, this, arguments)], env n this arguments)"
| "call env (ExtendWrapper fn) this arguments = fn_apply env fn this arguments"
| "call env (ValidatorClosure fn args passIfEmpty) this arguments =
     (let val = first_argument arguments;
          validatorArgs = [val] @ args
      in if passIfEmpty \<and> (is_empty val \<or> is_nil val) \<or> is_undef val
         then ([], Inr (JBool True))
         else fn_apply env fn this validatorArgs)"
| "fn_apply env (JFun f) this arguments = call env f this arguments"
| "fn_apply env v this arguments = ([], Inl (TypeError ''fn.apply is not a function''))"

subsection \<open>The registry over the life of the process\<close>


subsection \<open>A host to evaluate the module in\<close>

text \<open>
  For evaluation on concrete inputs: a library with the two rules \<^verbatim>\<open>isEmail\<close> and \<^verbatim>\<open>isLength\<close>,
  a table with a default message for each, and the text that a plain object without a
  \<^verbatim>\<open>toString\<close> of its own converts to.
\<close>

definition example_host :: host where
  "example_host =
     \<lparr>validatorjs =
        (\<lambda>name. if name = ''isEmail'' then JFun (Native ''validator.isEmail'')
                else if name = ''isLength'' then JFun (Native ''validator.isLength'')
                else JUndefined),
      defaultErrorMessages =
        [(''isEmail'', JStr ''Not an email''),
         (''isLength'', JStr ''Length not between {ARGS[0]} and {ARGS[1]}'')],
      toString_of = (\<lambda>v. ''[object Object]'')\<rparr>"

text \<open>
  An environment with two predicates. \<^verbatim>\<open>v => v.length > 3\<close>, under the name
  \<^verbatim>\<open>longerThan3\<close>: reading \<^verbatim>\<open>length\<close> of \<^verbatim>\<open>null\<close> or \<^verbatim>\<open>undefined\<close> throws, and a value with
  no length compares as false. \<^verbatim>\<open>v => v === 'foo'\<close>, under the name \<^verbatim>\<open>isFoo\<close>.
\<close>

definition example_env :: env where
  "example_env n this arguments =
     (if n = ''longerThan3''
      then (case first_argument arguments of
              JStr s \<Rightarrow> Inr (JBool (3 < length s))
            | JArr xs \<Rightarrow> Inr (JBool (3 < length xs))
            | JNull \<Rightarrow> Inl (TypeError ''Cannot read property length of null'')
            | JUndefined \<Rightarrow> Inl (TypeError ''Cannot read property length of undefined'')
            | _ \<Rightarrow> Inr (JBool False))
      else if n = ''isFoo''
      then Inr (JBool (first_argument arguments = JStr ''foo''))
      else Inr JUndefined)"

section \<open>Properties\<close>

subsection \<open>Reading and writing properties\<close>

lemma set_prop_setter: "map_of obj ''__proto__'' = None \<Longrightarrow> set_prop obj ''__proto__'' v = obj"
  by (simp add: set_prop_def)

lemma map_of_set_prop:
  "\<not> (key = ''__proto__'' \<and> map_of obj key = None)
     \<Longrightarrow> map_of (set_prop obj key v) = (map_of obj)(key \<mapsto> v)"
  by (auto simp: set_prop_def update_conv')

lemma get_prop_set_prop_same:
  "\<not> (key = ''__proto__'' \<and> map_of obj key = None) \<Longrightarrow> get_prop (set_prop obj key v) key = v"
  by (simp add: get_prop_def map_of_set_prop)

lemma map_of_set_prop_other:
  "key' \<noteq> key \<Longrightarrow> map_of (set_prop obj key v) key' = map_of obj key'"
  by (cases "key = ''__proto__'' \<and> map_of obj key = None")
     (auto simp: set_prop_setter map_of_set_prop)


lemma typeof_string: "(typeof v = ''string'') = is_string v"
  by (cases v) simp_all

lemma typeof_function: "(typeof v = ''function'') = is_function v"
  by (cases v) simp_all

lemma truthy_inherited:
  "key \<in> set Object_prototype_methods \<or> key = ''__proto__'' \<Longrightarrow> map_of obj key = None
     \<Longrightarrow> truthy (get_prop obj key)"
  by (auto simp: get_prop_def Object_prototype_def)

subsection \<open>Names inherited from \<^verbatim>\<open>Object.prototype\<close> cannot be registered\<close>

text \<open>
  Claim C10. Some names that were never registered are refused by the very first
  \<^verbatim>\<open>validate.extend(name, fn)\<close> with the duplicate-registration error: every property name
  that a plain object inherits from \<^verbatim>\<open>Object.prototype\<close> (\<^verbatim>\<open>toString\<close>, \<^verbatim>\<open>valueOf\<close>,
  \<^verbatim>\<open>constructor\<close>, \<^verbatim>\<open>hasOwnProperty\<close>, ...). The check of line 159 reads the property and
  tests its truthiness, so an inherited property counts although the registry has no such
  key of its own. The registry is left as it was.
\<close>

theorem extend_inherited_name_already_exists:
  assumes "name \<in> set Object_prototype_methods \<or> name = ''__proto__''"
    and "map_of (customValidators st) name = None"
  shows "extend st (JStr name) (JFun f) JUndefined
           = (Inl (Error (''validator `'' @ name @ ''` already exists'')), st)"
proof -
  have "name \<noteq> []"
    using assms(1) by (auto simp: Object_prototype_methods_def)
  moreover have "truthy (get_prop (customValidators st) name)"
    using assms by (rule truthy_inherited)
  ultimately show ?thesis
    by (simp add: extend_def)
qed

theorem extend_inherited_name_already_exists_witness:
  "extend initial_registry (JStr ''toString'') (JFun (Native ''f'')) JUndefined
     = (Inl (Error ''validator `toString` already exists''), initial_registry)
   \<and> extend initial_registry (JStr ''valueOf'') (JFun (Native ''f'')) JUndefined
     = (Inl (Error ''validator `valueOf` already exists''), initial_registry)
   \<and> extend initial_registry (JStr ''constructor'') (JFun (Native ''f'')) JUndefined
     = (Inl (Error ''validator `constructor` already exists''), initial_registry)
   \<and> extend initial_registry (JStr ''hasOwnProperty'') (JFun (Native ''f'')) JUndefined
     = (Inl (Error ''validator `hasOwnProperty` already exists''), initial_registry)"
  using extend_inherited_name_already_exists [of "''toString''" initial_registry "Native ''f''"]
    extend_inherited_name_already_exists [of "''valueOf''" initial_registry "Native ''f''"]
    extend_inherited_name_already_exists [of "''constructor''" initial_registry "Native ''f''"]
    extend_inherited_name_already_exists [of "''hasOwnProperty''" initial_registry "Native ''f''"]
  by (simp add: Object_prototype_methods_def initial_registry_def)

subsection \<open>The checks of \<^verbatim>\<open>validate.extend\<close>\<close>

lemma Object_prototype_proto: "Object_prototype ''__proto__'' = JObj []"
  by (simp add: Object_prototype_def Object_prototype_methods_def)

lemma falsy_not_setter:
  "\<not> truthy (get_prop obj key) \<Longrightarrow> \<not> (key = ''__proto__'' \<and> map_of obj key = None)"
  by (auto simp: get_prop_def Object_prototype_proto split: option.splits)

lemma extend_name_type:
  "\<not> is_string name \<Longrightarrow>
     extend st name fn m = (Inl (Error (''name must be a string, received '' @ typeof name)), st)"
  by (simp add: extend_def typeof_string Let_def)

lemma extend_fn_type:
  "is_string name \<Longrightarrow> \<not> is_function fn \<Longrightarrow>
     extend st name fn m = (Inl (Error (''validator must be a function, received '' @ typeof fn)), st)"
  by (simp add: extend_def typeof_string typeof_function Let_def)

lemma extend_msg_type:
  "is_string name \<Longrightarrow> is_function fn \<Longrightarrow> m \<noteq> JUndefined \<Longrightarrow> \<not> is_string m \<Longrightarrow>
     extend st name fn m = (Inl (Error (''message must be a string, received '' @ typeof m)), st)"
  by (simp add: extend_def typeof_string typeof_function Let_def)

lemma extend_name_required:
  "is_function fn \<Longrightarrow> m = JUndefined \<or> is_string m \<Longrightarrow>
     extend st (JStr []) fn m = (Inl (Error ''name is required''), st)"
  by (auto simp: extend_def typeof_function typeof_string Let_def)

lemma extend_already_exists:
  "is_function fn \<Longrightarrow> m = JUndefined \<or> is_string m \<Longrightarrow> n \<noteq> [] \<Longrightarrow>
   truthy (get_prop (customValidators st) n) \<Longrightarrow>
     extend st (JStr n) fn m = (Inl (Error (''validator `'' @ n @ ''` already exists'')), st)"
  by (auto simp: extend_def typeof_function typeof_string Let_def)

lemma extend_registers:
  "is_function fn \<Longrightarrow> m = JUndefined \<or> is_string m \<Longrightarrow> n \<noteq> [] \<Longrightarrow>
   \<not> truthy (get_prop (customValidators st) n) \<Longrightarrow>
     extend st (JStr n) fn m =
       (Inr (),
        st\<lparr>customValidators := set_prop (customValidators st) n (JFun (ExtendWrapper fn)),
           customErrorMessages := set_prop (customErrorMessages st) n
              (if m = JUndefined then JStr ''Error'' else m)\<rparr>)"
  by (auto simp: extend_def typeof_function typeof_string Let_def)

lemma extend_success_cases:
  assumes "fst (extend st name fn m) = Inr u"
  shows "is_string name \<and> is_function fn \<and> (m = JUndefined \<or> is_string m)
         \<and> str_of name \<noteq> [] \<and> \<not> truthy (get_prop (customValidators st) (str_of name))"
  using assms
  by (cases name) (auto simp: extend_def typeof_function typeof_string Let_def split: if_splits)

lemma extend_error_unchanged:
  "fst (extend st name fn m) = Inl e \<Longrightarrow> snd (extend st name fn m) = st"
  by (auto simp: extend_def Let_def split: if_splits)

lemma extend_then_registered:
  assumes "fst (extend st (JStr n) fn m) = Inr u"
  shows "truthy (get_prop (customValidators (snd (extend st (JStr n) fn m))) n)"
proof -
  from extend_success_cases [OF assms]
  have c: "is_function fn" "m = JUndefined \<or> is_string m" "n \<noteq> []"
    "\<not> truthy (get_prop (customValidators st) n)" by simp_all
  from c(4) have "\<not> (n = ''__proto__'' \<and> map_of (customValidators st) n = None)"
    by (rule falsy_not_setter)
  then show ?thesis
    by (simp add: extend_registers [OF c] get_prop_set_prop_same)
qed

text \<open>
  Claim C5. \<^verbatim>\<open>validate.extend(name, fn, msg)\<close> makes its five checks in this order, each
  one throwing: \<open>name\<close> is not text; \<open>fn\<close> is not callable; \<open>msg\<close> (\<^verbatim>\<open>'Error'\<close> when left out)
  is not text; \<open>name\<close> is the empty text; \<open>name\<close> is already present in the registry, with
  the error \<^verbatim>\<open>validator `<name>` already exists\<close>. A name that a call has registered is
  present for the calls that follow. Whenever the call throws, the registry of validators
  and the table of messages are exactly what they were before the call.
\<close>

theorem extend_validations_in_order:
  "(\<not> is_string name \<longrightarrow>
      extend st name fn m
        = (Inl (Error (''name must be a string, received '' @ typeof name)), st))
   \<and> (is_string name \<and> \<not> is_function fn \<longrightarrow>
      extend st name fn m
        = (Inl (Error (''validator must be a function, received '' @ typeof fn)), st))
   \<and> (is_string name \<and> is_function fn \<and> m \<noteq> JUndefined \<and> \<not> is_string m \<longrightarrow>
      extend st name fn m
        = (Inl (Error (''message must be a string, received '' @ typeof m)), st))
   \<and> (is_function fn \<and> (m = JUndefined \<or> is_string m) \<longrightarrow>
      extend st (JStr []) fn m = (Inl (Error ''name is required''), st))
   \<and> (is_function fn \<and> (m = JUndefined \<or> is_string m) \<and> n \<noteq> []
        \<and> truthy (get_prop (customValidators st) n) \<longrightarrow>
      extend st (JStr n) fn m
        = (Inl (Error (''validator `'' @ n @ ''` already exists'')), st))
   \<and> (fst (extend st (JStr n) fn m) = Inr () \<longrightarrow>
      truthy (get_prop (customValidators (snd (extend st (JStr n) fn m))) n))
   \<and> (\<forall>e. fst (extend st name fn m) = Inl e \<longrightarrow> snd (extend st name fn m) = st)"
proof -
  have order: "\<not> is_string name \<longrightarrow>
      extend st name fn m
        = (Inl (Error (''name must be a string, received '' @ typeof name)), st)"
    "is_string name \<and> \<not> is_function fn \<longrightarrow>
      extend st name fn m
        = (Inl (Error (''validator must be a function, received '' @ typeof fn)), st)"
    "is_string name \<and> is_function fn \<and> m \<noteq> JUndefined \<and> \<not> is_string m \<longrightarrow>
      extend st name fn m
        = (Inl (Error (''message must be a string, received '' @ typeof m)), st)"
    by (simp_all add: extend_name_type extend_fn_type extend_msg_type)
  have name_checks: "is_function fn \<and> (m = JUndefined \<or> is_string m) \<longrightarrow>
      extend st (JStr []) fn m = (Inl (Error ''name is required''), st)"
    "is_function fn \<and> (m = JUndefined \<or> is_string m) \<and> n \<noteq> []
        \<and> truthy (get_prop (customValidators st) n) \<longrightarrow>
      extend st (JStr n) fn m
        = (Inl (Error (''validator `'' @ n @ ''` already exists'')), st)"
    using extend_name_required [of fn m st] extend_already_exists [of fn m n st]
    by blast+
  have present: "fst (extend st (JStr n) fn m) = Inr () \<longrightarrow>
      truthy (get_prop (customValidators (snd (extend st (JStr n) fn m))) n)"
    using extend_then_registered by blast
  have frame: "\<forall>e. fst (extend st name fn m) = Inl e \<longrightarrow> snd (extend st name fn m) = st"
    using extend_error_unchanged by blast
  from order name_checks present frame show ?thesis
    by (intro conjI)
qed

theorem extend_validations_in_order_witness:
  "extend initial_registry (JNum 1) (JFun (Native ''f'')) JUndefined
     = (Inl (Error ''name must be a string, received number''), initial_registry)
   \<and> extend initial_registry (JStr ''x'') (JStr ''notAFunction'') JUndefined
     = (Inl (Error ''validator must be a function, received string''), initial_registry)
   \<and> extend initial_registry (JStr ''x'') (JFun (Native ''f'')) JNull
     = (Inl (Error ''message must be a string, received object''), initial_registry)
   \<and> extend initial_registry (JStr []) (JFun (Native ''f'')) JUndefined
     = (Inl (Error ''name is required''), initial_registry)
   \<and> extend \<lparr>customValidators = [(''isFoo'', JFun (ExtendWrapper (JFun (Native ''f''))))],
              customErrorMessages = [(''isFoo'', JStr ''Error'')]\<rparr>
        (JStr ''isFoo'') (JFun (Native ''g'')) (JStr ''Not foo'')
     = (Inl (Error ''validator `isFoo` already exists''),
        \<lparr>customValidators = [(''isFoo'', JFun (ExtendWrapper (JFun (Native ''f''))))],
         customErrorMessages = [(''isFoo'', JStr ''Error'')]\<rparr>)
   \<and> extend initial_registry (JStr ''isFoo'') (JFun (Native ''f'')) JUndefined
     = (Inr (), \<lparr>customValidators = [(''isFoo'', JFun (ExtendWrapper (JFun (Native ''f''))))],
                 customErrorMessages = [(''isFoo'', JStr ''Error'')]\<rparr>)
   \<and> truthy (get_prop [(''isFoo'', JFun (ExtendWrapper (JFun (Native ''f''))))] ''isFoo'')"
  using
    extend_validations_in_order [where name = "JNum 1" and st = initial_registry
      and fn = "JFun (Native ''f'')" and m = JUndefined and n = "''isFoo''"]
    extend_validations_in_order [where name = "JStr ''x''" and st = initial_registry
      and fn = "JStr ''notAFunction''" and m = JUndefined and n = "''x''"]
    extend_validations_in_order [where name = "JStr ''x''" and st = initial_registry
      and fn = "JFun (Native ''f'')" and m = JNull and n = "''x''"]
    extend_validations_in_order [where name = "JStr ''isFoo''"
      and st = "\<lparr>customValidators = [(''isFoo'', JFun (ExtendWrapper (JFun (Native ''f''))))],
                  customErrorMessages = [(''isFoo'', JStr ''Error'')]\<rparr>"
      and fn = "JFun (Native ''g'')" and m = "JStr ''Not foo''" and n = "''isFoo''"]
  by (simp add: extend_def initial_registry_def get_prop_def Object_prototype_def
        Object_prototype_methods_def set_prop_def)

subsection \<open>What \<^verbatim>\<open>omit\<close>, \<^verbatim>\<open>Object.assign\<close> and \<^verbatim>\<open>validate\<close> compute\<close>

lemma get_prop_own_key:
  "key \<in> set (Object_keys obj) \<Longrightarrow> map_of obj key = Some (get_prop obj key)"
  by (auto simp: Object_keys_def get_prop_def dest!: weak_map_of_SomeI split: option.splits)

lemma copy_keys_map_of:
  "map_of acc ''__proto__'' = None \<Longrightarrow> set ks \<subseteq> set (Object_keys obj) \<Longrightarrow>
   map_of (foldl (\<lambda>acc val. set_prop acc val (get_prop obj val)) acc ks) key
     = (if key \<in> set ks \<and> key \<noteq> ''__proto__'' then map_of obj key else map_of acc key)"
proof (induction ks arbitrary: acc)
  case Nil
  then show ?case by simp
next
  case (Cons k ks)
  let ?acc = "set_prop acc k (get_prop obj k)"
  have own: "map_of obj k = Some (get_prop obj k)"
    using Cons.prems(2) by (simp add: get_prop_own_key)
  have proto: "map_of ?acc ''__proto__'' = None"
  proof (cases "k = ''__proto__''")
    case True
    then show ?thesis using Cons.prems(1) by (simp add: set_prop_setter)
  next
    case False
    then show ?thesis using Cons.prems(1) by (simp add: map_of_set_prop_other)
  qed
  have step: "map_of ?acc key = (if key = k \<and> key \<noteq> ''__proto__'' then map_of obj key else map_of acc key)"
  proof (cases "k = ''__proto__''")
    case True
    then show ?thesis using Cons.prems(1) by (simp add: set_prop_setter)
  next
    case False
    then show ?thesis using own by (simp add: map_of_set_prop)
  qed
  have "map_of (foldl (\<lambda>acc val. set_prop acc val (get_prop obj val)) ?acc ks) key
     = (if key \<in> set ks \<and> key \<noteq> ''__proto__'' then map_of obj key else map_of ?acc key)"
    using Cons.prems(2) by (intro Cons.IH [OF proto]) simp
  then show ?case
    using step by auto
qed

lemma map_of_omit:
  "map_of (omit obj keys) key
     = (if key \<in> set keys \<or> key = ''__proto__'' then None else map_of obj key)"
proof -
  have "map_of (omit obj keys) key
     = (if key \<in> set (filter (\<lambda>key. key \<notin> set keys) (Object_keys obj)) \<and> key \<noteq> ''__proto__''
        then map_of obj key else map_of [] key)"
    unfolding omit_def by (rule copy_keys_map_of) auto
  moreover have "key \<notin> set (Object_keys obj) \<Longrightarrow> map_of obj key = None"
    by (simp add: Object_keys_def map_of_eq_None_iff)
  ultimately show ?thesis by auto
qed

lemma map_of_Object_assign:
  assumes "map_of target ''__proto__'' = None"
  shows "map_of (Object_assign target source) key
     = (if key \<in> set (Object_keys source) \<and> key \<noteq> ''__proto__''
        then map_of source key else map_of target key)"
  unfolding Object_assign_def using assms by (rule copy_keys_map_of) simp

lemma findFirstString_text:
  "\<exists>t. findFirstString [a, b, c, JStr e] = JStr t"
  by (cases a; cases b; cases c) (simp_all add: findFirstString_def)

lemma interpolate_text:
  "interpolateMessageWithArgs conv (JStr t) args
     = Inr (JStr (replace_tokens (\<lambda>submatch. ToString conv (js_or (array_get args submatch) (JStr []))) t))"
  by (simp add: interpolateMessageWithArgs_def)

lemma validate_returns:
  assumes "\<not> is_undef (get_prop options ''validator'')"
    and "is_function (get_prop options ''validator'') \<or> is_string (get_prop options ''validator'')"
    and "\<not> is_undef (getValidatorFn h st (get_prop options ''validator''))"
  shows "validate h st options =
     Inr (Object_assign
       [(''validator'', createValidator (getValidatorFn h st (get_prop options ''validator''))
            (toArray (get_prop options ''arguments'')) (truthy (get_prop options ''passIfEmpty''))),
        (''message'', JStr (replace_tokens
            (\<lambda>submatch. ToString (toString_of h)
               (js_or (array_get (toArray (get_prop options ''arguments'')) submatch) (JStr [])))
            (str_of (findFirstString
               [get_prop options ''message'',
                get_prop (customErrorMessages st)
                  (if is_string (get_prop options ''validator'')
                   then str_of (get_prop options ''validator'') else []),
                get_prop (defaultErrorMessages h)
                  (if is_string (get_prop options ''validator'')
                   then str_of (get_prop options ''validator'') else []),
                JStr ''Error'']))))]
       (omit options [''passIfEmpty'', ''message'', ''validator'', ''arguments'']))"
proof -
  let ?name = "if is_string (get_prop options ''validator'')
                   then str_of (get_prop options ''validator'') else []"
  obtain t where t: "findFirstString
               [get_prop options ''message'', get_prop (customErrorMessages st) ?name,
                get_prop (defaultErrorMessages h) ?name, JStr ''Error''] = JStr t"
    using findFirstString_text by blast
  show ?thesis
    using assms unfolding validate_def Let_def t interpolate_text by simp
qed

subsection \<open>When \<^verbatim>\<open>validate\<close> throws\<close>




lemma getValidatorFn_function: "is_function v \<Longrightarrow> getValidatorFn h st v = v"
  by (simp add: getValidatorFn_def)



lemma validate_throws:
  "validate h st options = Inl e \<longleftrightarrow>
     (is_undef (get_prop options ''validator'') \<and> e = Error ''validator option undefined'')
   \<or> (\<not> is_undef (get_prop options ''validator'')
        \<and> \<not> is_function (get_prop options ''validator'')
        \<and> \<not> is_string (get_prop options ''validator'')
        \<and> e = Error (''validator must be of type function or string, received ''
                         @ typeof (get_prop options ''validator'')))
   \<or> (is_string (get_prop options ''validator'')
        \<and> is_undef (getValidatorFn h st (get_prop options ''validator''))
        \<and> e = Error (''validator `'' @ str_of (get_prop options ''validator'')
                         @ ''` does not exist in validator.js or as a custom validator''))"
proof (cases "is_undef (get_prop options ''validator'')")
  case True
  then show ?thesis by (cases "get_prop options ''validator''") (auto simp: validate_def)
next
  case defined: False
  show ?thesis
  proof (cases "is_function (get_prop options ''validator'') \<or> is_string (get_prop options ''validator'')")
    case False
    then show ?thesis using defined by (auto simp: validate_def)
  next
    case typed: True
    show ?thesis
    proof (cases "is_undef (getValidatorFn h st (get_prop options ''validator''))")
      case True
      then have "is_string (get_prop options ''validator'')"
        using typed defined by (auto simp: getValidatorFn_function)
      then show ?thesis using True defined by (auto simp: validate_def Let_def)
    next
      case False
      then show ?thesis
        using defined typed by (auto simp: validate_returns)
    qed
  qed
qed

lemma validate_returns_cases:
  assumes "validate h st options = Inr d"
  shows "\<not> is_undef (get_prop options ''validator'')"
    and "is_function (get_prop options ''validator'') \<or> is_string (get_prop options ''validator'')"
    and "\<not> is_undef (getValidatorFn h st (get_prop options ''validator''))"
proof -
  have no: "\<And>e. validate h st options \<noteq> Inl e"
    using assms by simp
  show defined: "\<not> is_undef (get_prop options ''validator'')"
    using no validate_throws [of h st options] by blast
  show typed: "is_function (get_prop options ''validator'') \<or> is_string (get_prop options ''validator'')"
    using no defined validate_throws [of h st options] by blast
  show "\<not> is_undef (getValidatorFn h st (get_prop options ''validator''))"
  proof (cases "is_string (get_prop options ''validator'')")
    case True
    then show ?thesis using no validate_throws [of h st options] by blast
  next
    case False
    then have "getValidatorFn h st (get_prop options ''validator'') = get_prop options ''validator''"
      using typed by (simp add: getValidatorFn_function)
    then show ?thesis using defined by simp
  qed
qed



lemma Object_keys_map_of: "key \<in> set (Object_keys obj) \<longleftrightarrow> map_of obj key \<noteq> None"
  by (simp add: Object_keys_def map_of_eq_None_iff)

lemma map_of_descriptor:
  "map_of (Object_assign [(''validator'', V), (''message'', M)]
             (omit options [''passIfEmpty'', ''message'', ''validator'', ''arguments''])) key
     = (if key = ''validator'' then Some V
        else if key = ''message'' then Some M
        else if key = ''passIfEmpty'' \<or> key = ''arguments'' \<or> key = ''__proto__'' then None
        else map_of options key)"
proof -
  let ?src = "omit options [''passIfEmpty'', ''message'', ''validator'', ''arguments'']"
  have "map_of (Object_assign [(''validator'', V), (''message'', M)] ?src) key
     = (if map_of ?src key \<noteq> None \<and> key \<noteq> ''__proto__''
        then map_of ?src key else map_of [(''validator'', V), (''message'', M)] key)"
    by (subst map_of_Object_assign) (simp_all add: Object_keys_map_of)
  then show ?thesis
    by (auto simp: map_of_omit)
qed

lemma validate_descriptor:
  assumes "validate h st options = Inr d"
  shows "map_of d ''validator''
           = Some (createValidator (getValidatorFn h st (get_prop options ''validator''))
                     (toArray (get_prop options ''arguments''))
                     (truthy (get_prop options ''passIfEmpty'')))"
proof -
  note c = validate_returns_cases [OF assms]
  show ?thesis
    using assms unfolding validate_returns [OF c] by (auto simp: map_of_descriptor)
qed





subsection \<open>Resolving a name\<close>







subsection \<open>What the produced validator does\<close>

lemma call_validator_undefined:
  "call env (ValidatorClosure fn args p) this (JUndefined # rest) = ([], Inr (JBool True))"
  by (simp add: first_argument_def)

lemma call_validator_no_argument:
  "call env (ValidatorClosure fn args p) this [] = ([], Inr (JBool True))"
  by (simp add: first_argument_def)

lemma call_validator_pass:
  "p \<Longrightarrow> is_empty val \<or> is_nil val \<Longrightarrow>
     call env (ValidatorClosure fn args p) this (val # rest) = ([], Inr (JBool True))"
  by (auto simp: first_argument_def)

lemma call_validator_runs:
  "\<not> is_undef val \<Longrightarrow> \<not> (p \<and> (is_empty val \<or> is_nil val)) \<Longrightarrow>
     call env (ValidatorClosure fn args p) this (val # rest) = fn_apply env fn this (val # args)"
  by (auto simp: first_argument_def)

lemma toArray_array: "toArray (JArr xs) = xs"
  by (simp add: toArray_def)

lemma toArray_absent: "toArray JUndefined = []"
  by (simp add: toArray_def)

lemma toArray_single: "\<not> is_array v \<Longrightarrow> v \<noteq> JUndefined \<Longrightarrow> toArray v = [v]"
  by (cases v) (simp_all add: toArray_def)

text \<open>
  Claim C1. Let \<open>fn\<close> be the resolved rule function, \<open>args\<close> the resolved argument sequence
  (an \<^verbatim>\<open>arguments\<close> option that is a sequence is taken as it is, one that is absent gives
  the empty sequence, any other value is wrapped in a one-element sequence) and
  \<open>passIfEmpty\<close> the flag. The \<^verbatim>\<open>validator\<close> of the descriptor that \<^verbatim>\<open>validate(options)\<close>
  returns is the closure over these three, and: called with an absent value
  (\<^verbatim>\<open>undefined\<close>, or no argument) it returns \<^verbatim>\<open>true\<close> whatever the flag; called with an
  empty or absent value while \<open>passIfEmpty\<close> holds it returns \<^verbatim>\<open>true\<close>; in both cases no
  function is invoked. In every other case the call is exactly the application of \<open>fn\<close>
  to the value followed by \<open>args\<close> (for a function \<open>fn = JFun f\<close> that is \<open>call env f\<close>),
  with the same \<^verbatim>\<open>this\<close>, the same result and the same invocations.
\<close>

theorem validator_of_validate:
  assumes "validate h st options = Inr d"
    and "fn = getValidatorFn h st (get_prop options ''validator'')"
    and "args = toArray (get_prop options ''arguments'')"
    and "passIfEmpty = truthy (get_prop options ''passIfEmpty'')"
  shows "map_of d ''validator'' = Some (JFun (ValidatorClosure fn args passIfEmpty))
     \<and> (\<forall>xs. get_prop options ''arguments'' = JArr xs \<longrightarrow> args = xs)
     \<and> (get_prop options ''arguments'' = JUndefined \<longrightarrow> args = [])
     \<and> (\<not> is_array (get_prop options ''arguments'')
          \<and> get_prop options ''arguments'' \<noteq> JUndefined \<longrightarrow>
            args = [get_prop options ''arguments''])
     \<and> call env (ValidatorClosure fn args passIfEmpty) this (JUndefined # rest)
           = ([], Inr (JBool True))
     \<and> call env (ValidatorClosure fn args passIfEmpty) this [] = ([], Inr (JBool True))
     \<and> (passIfEmpty \<and> (is_empty val \<or> is_nil val) \<longrightarrow>
            call env (ValidatorClosure fn args passIfEmpty) this (val # rest)
              = ([], Inr (JBool True)))
     \<and> (\<not> is_undef val \<and> \<not> (passIfEmpty \<and> (is_empty val \<or> is_nil val)) \<longrightarrow>
            call env (ValidatorClosure fn args passIfEmpty) this (val # rest)
              = fn_apply env fn this (val # args))"
proof -
  have closure: "map_of d ''validator'' = Some (JFun (ValidatorClosure fn args passIfEmpty))"
    using validate_descriptor [OF assms(1)] assms(2-4) by (simp add: createValidator_def)
  have coerced: "\<forall>xs. get_prop options ''arguments'' = JArr xs \<longrightarrow> args = xs"
    "get_prop options ''arguments'' = JUndefined \<longrightarrow> args = []"
    "\<not> is_array (get_prop options ''arguments'')
          \<and> get_prop options ''arguments'' \<noteq> JUndefined \<longrightarrow>
            args = [get_prop options ''arguments'']"
    unfolding assms(3) by (simp_all add: toArray_array toArray_absent toArray_single)
  have short: "passIfEmpty \<and> (is_empty val \<or> is_nil val) \<longrightarrow>
            call env (ValidatorClosure fn args passIfEmpty) this (val # rest)
              = ([], Inr (JBool True))"
    using call_validator_pass [of passIfEmpty val env fn args this rest] by blast
  have runs: "\<not> is_undef val \<and> \<not> (passIfEmpty \<and> (is_empty val \<or> is_nil val)) \<longrightarrow>
            call env (ValidatorClosure fn args passIfEmpty) this (val # rest)
              = fn_apply env fn this (val # args)"
    using call_validator_runs [of val passIfEmpty env fn args this rest] by blast
  from closure coerced short runs show ?thesis
    by (simp only: call_validator_undefined call_validator_no_argument simp_thms)
qed

theorem validator_of_validate_witness:
  "validate example_host initial_registry
     [(''validator'', JFun (Native ''longerThan3'')), (''arguments'', JNum 4),
      (''message'', JStr ''{ARGS[0]}''), (''passIfEmpty'', JBool True)]
     = Inr [(''validator'', JFun (ValidatorClosure (JFun (Native ''longerThan3'')) [JNum 4] True)),
            (''message'', JStr ''4'')]
   \<and> call example_env (ValidatorClosure (JFun (Native ''longerThan3'')) [JNum 4] True)
         JUndefined [JUndefined] = ([], Inr (JBool True))
   \<and> call example_env (ValidatorClosure (JFun (Native ''longerThan3'')) [JNum 4] True)
         JUndefined [JStr []] = ([], Inr (JBool True))
   \<and> call example_env (ValidatorClosure (JFun (Native ''longerThan3'')) [JNum 4] True)
         JUndefined [JStr ''ab'']
       = ([(''longerThan3'', JUndefined, [JStr ''ab'', JNum 4])], Inr (JBool False))
   \<and> call example_env (ValidatorClosure (JFun (Native ''longerThan3'')) [JNum 4] True)
         JUndefined [JStr ''abcd'']
       = ([(''longerThan3'', JUndefined, [JStr ''abcd'', JNum 4])], Inr (JBool True))"
proof -
  have v: "validate example_host initial_registry
     [(''validator'', JFun (Native ''longerThan3'')), (''arguments'', JNum 4),
      (''message'', JStr ''{ARGS[0]}''), (''passIfEmpty'', JBool True)]
     = Inr [(''validator'', JFun (ValidatorClosure (JFun (Native ''longerThan3'')) [JNum 4] True)),
            (''message'', JStr ''4'')]"
    by code_simp
  show ?thesis
    using validator_of_validate [OF v refl refl refl, where env = example_env and this = JUndefined
        and val = "JStr []" and rest = "[]"]
      validator_of_validate [OF v refl refl refl, where env = example_env and this = JUndefined
        and val = "JStr ''ab''" and rest = "[]"]
      validator_of_validate [OF v refl refl refl, where env = example_env and this = JUndefined
        and val = "JStr ''abcd''" and rest = "[]"]
    by (simp add: v example_env_def first_argument_def get_prop_def getValidatorFn_def toArray_def)
qed

text \<open>
  Claim C9. For every rule function and argument sequence: with \<open>passIfEmpty\<close> false the
  produced validator does not short-circuit on \<^verbatim>\<open>null\<close>, it invokes the function with
  \<^verbatim>\<open>null\<close> as the value and returns its result; on \<^verbatim>\<open>undefined\<close> it returns \<^verbatim>\<open>true\<close>
  without invoking the function, whatever the flag. Only with \<open>passIfEmpty\<close> true are
  \<^verbatim>\<open>null\<close> and empty values short-circuited to \<^verbatim>\<open>true\<close> as well: with the flag false
  every value but \<^verbatim>\<open>undefined\<close> goes to the function.
\<close>

theorem null_short_circuits_only_with_passIfEmpty:
  "fn_apply env (createValidator (JFun f) args False) this (JNull # rest)
     = call env f this (JNull # args)
   \<and> fn_apply env (createValidator (JFun (Native n)) args False) this (JNull # rest)
     = ([(n, this, JNull # args)], env n this (JNull # args))
   \<and> fn_apply env (createValidator (JFun f) args passIfEmpty) this (JUndefined # rest)
     = ([], Inr (JBool True))
   \<and> fn_apply env (createValidator (JFun f) args True) this (JNull # rest)
     = ([], Inr (JBool True))
   \<and> (is_empty val \<longrightarrow>
        fn_apply env (createValidator (JFun f) args True) this (val # rest)
          = ([], Inr (JBool True)))
   \<and> (\<not> is_undef val \<longrightarrow>
        fn_apply env (createValidator (JFun f) args False) this (val # rest)
          = call env f this (val # args))"
proof -
  have null_runs: "fn_apply env (createValidator (JFun g) args False) this (JNull # rest)
     = call env g this (JNull # args)" for g
    by (simp add: createValidator_def first_argument_def)
  have undefined_passes:
    "fn_apply env (createValidator (JFun f) args passIfEmpty) this (JUndefined # rest)
       = ([], Inr (JBool True))"
    by (simp add: createValidator_def first_argument_def)
  have empty_passes: "is_empty val \<or> is_nil val \<longrightarrow>
        fn_apply env (createValidator (JFun f) args True) this (val # rest)
          = ([], Inr (JBool True))" for val
    by (simp add: createValidator_def first_argument_def)
  have others_run: "\<not> is_undef val \<longrightarrow>
        fn_apply env (createValidator (JFun f) args False) this (val # rest)
          = call env f this (val # args)"
    by (simp add: createValidator_def first_argument_def)
  from null_runs [of f] null_runs [of "Native n"] undefined_passes empty_passes [of JNull]
    empty_passes [of val] others_run
  show ?thesis by simp
qed

theorem null_short_circuits_only_with_passIfEmpty_witness:
  "fn_apply example_env (createValidator (JFun (Native ''longerThan3'')) [] False)
       JUndefined [JNull]
     = ([(''longerThan3'', JUndefined, [JNull])],
        Inl (TypeError ''Cannot read property length of null''))
   \<and> fn_apply example_env (createValidator (JFun (Native ''longerThan3'')) [] False)
       JUndefined [JUndefined] = ([], Inr (JBool True))
   \<and> fn_apply example_env (createValidator (JFun (Native ''longerThan3'')) [] True)
       JUndefined [JNull] = ([], Inr (JBool True))
   \<and> fn_apply example_env (createValidator (JFun (Native ''longerThan3'')) [] True)
       JUndefined [JStr []] = ([], Inr (JBool True))
   \<and> fn_apply example_env (createValidator (JFun (Native ''longerThan3'')) [] False)
       JUndefined [JStr []]
     = ([(''longerThan3'', JUndefined, [JStr []])], Inr (JBool False))"
  using
    null_short_circuits_only_with_passIfEmpty [where env = example_env
      and f = "Native ''longerThan3''" and n = "''longerThan3''" and args = "[]"
      and this = JUndefined and rest = "[]" and val = "JStr []" and passIfEmpty = False]
  by (simp add: example_env_def first_argument_def)

subsection \<open>A registered rule is the one \<^verbatim>\<open>validate\<close> uses\<close>













end
